theory Spec2Isabelle
  imports Complex_Main
begin

section \<open>AccessManager: administrative override sessions with a presence watchdog\<close>

text \<open>
  A shallow embedding of \<^verbatim>\<open>src/access_manager.py\<close>: the configuration and clearance
  dataclasses, and the four methods of class \<^verbatim>\<open>AccessManager\<close>.

  Conventions of the embedding.
  \<^item> A Python \<^verbatim>\<open>str\<close> is a \<open>string\<close> whose characters stand for the code points
    below 256; \<^verbatim>\<open>str.strip\<close>, \<^verbatim>\<open>str.lower\<close> and \<^verbatim>\<open>str.startswith\<close> are written
    out for this range.
  \<^item> An argument that may be \<^verbatim>\<open>None\<close> is an \<open>option\<close>; the \<^verbatim>\<open>AttributeError\<close> that
    \<^verbatim>\<open>None.strip()\<close> raises is a value of the type \<open>error\<close>.
  \<^item> A Python \<^verbatim>\<open>float\<close> is a \<open>pyfloat\<close>: an IEEE 754 binary64 value, that is a
    finite number, an infinity or NaN. Subtraction rounds to the nearest double, ties to
    even, and overflows to an infinity; comparisons with NaN are false; \<^verbatim>\<open>int()\<close> raises
    on an infinity and on NaN. The two zeros are one value: no operation of this program
    tells them apart.
  \<^item> \<^verbatim>\<open>time.monotonic()\<close> returns a finite float; its value is an argument \<open>now\<close> of
    each method that reads the clock (each of them reads it at most once per call).
  \<^item> \<^verbatim>\<open>self.cfg\<close> is assigned once by the constructor and its dataclass is frozen, so
    the configuration is an argument \<open>cfg\<close>; the mutable fields of \<^verbatim>\<open>self\<close> are the
    record \<open>session\<close>, taken and returned by every method.
  \<^item> Logging is not modelled.
\<close>

subsection \<open>Strings\<close>

text \<open>\<^verbatim>\<open>str.isspace\<close> on one character, for the code points below 256.\<close>

definition py_isspace :: "char \<Rightarrow> bool" where
  "py_isspace c =
     (let n = (of_char c :: nat)
      in (9 \<le> n \<and> n \<le> 13) \<or> (28 \<le> n \<and> n \<le> 32) \<or> n = 133 \<or> n = 160)"

text \<open>\<^verbatim>\<open>s.strip()\<close>: leading and trailing whitespace removed.\<close>

definition strip :: "string \<Rightarrow> string" where
  "strip s = rev (dropWhile py_isspace (rev (dropWhile py_isspace s)))"

text \<open>\<^verbatim>\<open>str.lower\<close> on one character: A-Z and the upper-case letters of Latin-1.\<close>

definition lower_char :: "char \<Rightarrow> char" where
  "lower_char c =
     (let n = (of_char c :: nat)
      in if (65 \<le> n \<and> n \<le> 90) \<or> (192 \<le> n \<and> n \<le> 222 \<and> n \<noteq> 215)
         then char_of (n + 32) else c)"

definition lower :: "string \<Rightarrow> string" where
  "lower s = map lower_char s"

text \<open>\<^verbatim>\<open>s.startswith(p)\<close>.\<close>

definition startswith :: "string \<Rightarrow> string \<Rightarrow> bool" where
  "startswith s p = (take (length p) s = p)"

text \<open>\<^verbatim>\<open>str(n)\<close> for an integer, as the f-string of \<^verbatim>\<open>maintenance_pulse\<close> formats it.\<close>

definition digit_char :: "nat \<Rightarrow> char" where
  "digit_char d = char_of (48 + d)"

fun str_nat :: "nat \<Rightarrow> string" where
  "str_nat n = (if n < 10 then [digit_char n] else str_nat (n div 10) @ [digit_char (n mod 10)])"

declare str_nat.simps [simp del]

definition str_int :: "int \<Rightarrow> string" where
  "str_int i = (if i < 0 then CHR ''-'' # str_nat (nat (- i)) else str_nat (nat i))"

subsection \<open>Floats\<close>

datatype pyfloat = Fin real | PInf | NInf | NaN

datatype error = AttributeError | OverflowError | ValueError

text \<open>\<open>pow2 k\<close> is the power of two with the integer exponent \<open>k\<close>.\<close>

definition pow2 :: "int \<Rightarrow> real" where
  "pow2 k = (if 0 \<le> k then 2 ^ nat k else 1 / 2 ^ nat (- k))"

fun ilog2 :: "nat \<Rightarrow> nat" where
  "ilog2 n = (if n < 2 then 0 else Suc (ilog2 (n div 2)))"

declare ilog2.simps [simp del]

text \<open>
  The binary exponent of a positive number \<open>x\<close>: the integer \<open>e\<close> with
  \<open>pow2 e \<le> x < 2 * pow2 e\<close> (lemma \<open>exponent_bounds\<close>).
\<close>

definition exponent :: "real \<Rightarrow> int" where
  "exponent x =
     (if 1 \<le> x then int (ilog2 (nat \<lfloor>x\<rfloor>))
      else - int (ilog2 (nat (\<lceil>1 / x\<rceil> - 1))) - 1)"

text \<open>Rounding to the nearest integer, a tie going to the even one.\<close>

definition round_half_even :: "real \<Rightarrow> int" where
  "round_half_even r =
     (let f = \<lfloor>r\<rfloor>; d = r - of_int f
      in if d < 1 / 2 then f
         else if 1 / 2 < d then f + 1
         else if even f then f else f + 1)"

text \<open>
  The binary64 value of an exact result \<open>x\<close>, as IEEE 754 rounds it in the default mode:
  the significand has 53 bits, the exponent is at least \<open>-1022\<close> (below it the values are
  subnormal, spaced \<open>pow2 (-1074)\<close> apart), and a rounded magnitude of \<open>2 ^ 1024\<close> or
  more is an infinity.
\<close>

definition round_double :: "real \<Rightarrow> pyfloat" where
  "round_double x =
     (if x = 0 then Fin 0
      else
        (let e = max (exponent \<bar>x\<bar>) (- 1022);
             q = pow2 (e - 52);
             v = of_int (round_half_even (x / q)) * q
         in if 2 ^ 1024 \<le> v then PInf
            else if v \<le> - (2 ^ 1024) then NInf
            else Fin v))"

text \<open>A real number is a double when rounding leaves it as it is.\<close>

definition is_double :: "real \<Rightarrow> bool" where
  "is_double x = (round_double x = Fin x)"

text \<open>\<^verbatim>\<open>math.isfinite\<close>.\<close>

fun is_finite :: "pyfloat \<Rightarrow> bool" where
  "is_finite (Fin x) = True"
| "is_finite PInf = False"
| "is_finite NInf = False"
| "is_finite NaN = False"

text \<open>\<^verbatim>\<open>a - b\<close> on floats.\<close>

fun fsub :: "pyfloat \<Rightarrow> pyfloat \<Rightarrow> pyfloat" where
  "fsub NaN b = NaN"
| "fsub a NaN = NaN"
| "fsub PInf PInf = NaN"
| "fsub NInf NInf = NaN"
| "fsub PInf b = PInf"
| "fsub NInf b = NInf"
| "fsub (Fin x) PInf = NInf"
| "fsub (Fin x) NInf = PInf"
| "fsub (Fin x) (Fin y) = round_double (x - y)"

text \<open>\<^verbatim>\<open>a < b\<close>, \<^verbatim>\<open>a > b\<close> and \<^verbatim>\<open>a <= b\<close> on floats.\<close>

fun flt :: "pyfloat \<Rightarrow> pyfloat \<Rightarrow> bool" where
  "flt NaN b = False"
| "flt a NaN = False"
| "flt a NInf = False"
| "flt PInf b = False"
| "flt NInf b = True"
| "flt (Fin x) PInf = True"
| "flt (Fin x) (Fin y) = (x < y)"

definition fgt :: "pyfloat \<Rightarrow> pyfloat \<Rightarrow> bool" where
  "fgt a b = flt b a"

fun fle :: "pyfloat \<Rightarrow> pyfloat \<Rightarrow> bool" where
  "fle NaN b = False"
| "fle a NaN = False"
| "fle NInf b = True"
| "fle a PInf = True"
| "fle a NInf = False"
| "fle PInf b = False"
| "fle (Fin x) (Fin y) = (x \<le> y)"

text \<open>
  \<^verbatim>\<open>max(a, b)\<close> on two floats: the builtin keeps its first argument unless the second is
  greater.
\<close>

definition py_max :: "pyfloat \<Rightarrow> pyfloat \<Rightarrow> pyfloat" where
  "py_max a b = (if fgt b a then b else a)"

text \<open>
  \<^verbatim>\<open>int(x)\<close> for a float: truncation towards zero; \<^verbatim>\<open>OverflowError\<close> on an infinity,
  \<^verbatim>\<open>ValueError\<close> on NaN.
\<close>

fun py_int :: "pyfloat \<Rightarrow> error + int" where
  "py_int (Fin x) = Inr (if x < 0 then \<lceil>x\<rceil> else \<lfloor>x\<rfloor>)"
| "py_int PInf = Inl OverflowError"
| "py_int NInf = Inl OverflowError"
| "py_int NaN = Inl ValueError"

subsection \<open>Configuration and clearance levels\<close>

text \<open>A decimal literal of the source is the double nearest to it.\<close>

record access_config =
  MAINTENANCE_TIMEOUT_SEC :: pyfloat
  HEARTBEAT_THRESHOLD_SEC :: pyfloat
  auth_cache :: "string \<rightharpoonup> string"

definition default_auth_cache :: "string \<rightharpoonup> string" where
  "default_auth_cache =
     map_of [(''OP-7721'', ''Standard Operator''),
             (''MAINT-900'', ''Maintenance Tech''),
             (''ARCH-001'', ''Senior Architect'')]"

definition default_config :: access_config where
  "default_config =
     \<lparr>MAINTENANCE_TIMEOUT_SEC = Fin 300, HEARTBEAT_THRESHOLD_SEC = Fin 1,
      auth_cache = default_auth_cache\<rparr>"

record clearance_level =
  name :: string
  tier_id :: int
  speed_limit_scale :: pyfloat
  stiffness_boost :: pyfloat

definition TIER_1 :: clearance_level where
  "TIER_1 = \<lparr>name = ''Standard'', tier_id = 1,
             speed_limit_scale = round_double (1 / 2), stiffness_boost = round_double 1\<rparr>"

definition TIER_2 :: clearance_level where
  "TIER_2 = \<lparr>name = ''Maintenance'', tier_id = 2,
             speed_limit_scale = round_double (4 / 5), stiffness_boost = round_double (3 / 2)\<rparr>"

definition TIER_3 :: clearance_level where
  "TIER_3 = \<lparr>name = ''Admin'', tier_id = 3,
             speed_limit_scale = round_double 1, stiffness_boost = round_double 2\<rparr>"

subsection \<open>The session and the methods of AccessManager\<close>

record session =
  active_session :: "clearance_level option"
  last_presence_time :: pyfloat
  active_badge :: "string option"

text \<open>\<^verbatim>\<open>AccessManager.__init__\<close>.\<close>

definition init_session :: session where
  "init_session = \<lparr>active_session = None, last_presence_time = Fin 0, active_badge = None\<rparr>"

definition is_override_active :: "session \<Rightarrow> bool" where
  "is_override_active s = (active_session s \<noteq> None)"

definition valid_intents :: "string list" where
  "valid_intents = [''start maintenance'', ''admin override'', ''system check'']"

text \<open>
  \<^verbatim>\<open>AccessManager.secure_logout\<close>. The test of \<^verbatim>\<open>self._active_session\<close> only guards a
  log line.
\<close>

definition secure_logout :: "session \<Rightarrow> session" where
  "secure_logout s =
     s\<lparr>active_session := None, active_badge := None, last_presence_time := Fin 0\<rparr>"

text \<open>
  \<^verbatim>\<open>AccessManager.request_override\<close>. The result is what the call raises or returns,
  and the session it leaves. \<^verbatim>\<open>badge_id.strip()\<close> is evaluated first, then
  \<^verbatim>\<open>voice_intent.strip().lower()\<close>; either raises on \<^verbatim>\<open>None\<close> before any field is
  written.
\<close>

definition request_override ::
  "access_config \<Rightarrow> real \<Rightarrow> string option \<Rightarrow> string option \<Rightarrow> session
     \<Rightarrow> (error + bool) \<times> session" where
  "request_override cfg now badge_id voice_intent s =
     (case badge_id of
        None \<Rightarrow> (Inl AttributeError, s)
      | Some b \<Rightarrow>
          (case voice_intent of
             None \<Rightarrow> (Inl AttributeError, s)
           | Some v \<Rightarrow>
               (let clean_badge = strip b;
                    clean_intent = lower (strip v)
                in if auth_cache cfg clean_badge = None then (Inr False, s)
                   else if clean_intent \<notin> set valid_intents then (Inr False, s)
                   else (Inr True,
                         s\<lparr>active_session :=
                              Some (if startswith clean_badge ''ARCH'' then TIER_3
                                    else if startswith clean_badge ''MAINT'' then TIER_2
                                    else TIER_1),
                           active_badge := Some clean_badge,
                           last_presence_time := Fin now\<rparr>))))"

text \<open>
  \<^verbatim>\<open>AccessManager.maintenance_pulse\<close>: what the call raises or returns, and the session
  it leaves. When \<^verbatim>\<open>int()\<close> raises, the presence time has already been refreshed.
\<close>

definition maintenance_pulse ::
  "access_config \<Rightarrow> real \<Rightarrow> bool \<Rightarrow> session \<Rightarrow> (error + bool \<times> string) \<times> session" where
  "maintenance_pulse cfg now operator_present s =
     (if \<not> is_override_active s then (Inr (True, ''STANDBY: No active override.''), s)
      else
        (let current_time = Fin now;
             s1 = (if operator_present then s\<lparr>last_presence_time := current_time\<rparr> else s);
             elapsed = fsub current_time (last_presence_time s1)
         in if fgt elapsed (MAINTENANCE_TIMEOUT_SEC cfg)
            then (Inr (False, ''EMERGENCY: Watchdog timeout. Reverting to Safe Mode.''),
                  secure_logout s1)
            else
              (case py_int (fsub (MAINTENANCE_TIMEOUT_SEC cfg) elapsed) of
                 Inl e \<Rightarrow> (Inl e, s1)
               | Inr remaining \<Rightarrow>
                   (Inr (True, ''ACTIVE: Session confirmed. Timeout in ''
                                 @ str_int remaining @ ''s''),
                    s1))))"

text \<open>
  The values of the telemetry dictionary: a bool, a string, a float, or \<^verbatim>\<open>None\<close>
  (the type of \<^verbatim>\<open>self._active_badge\<close> is \<^verbatim>\<open>Optional[str]\<close>).
\<close>

datatype pyval = PBool bool | PStr string | PFloat pyfloat | PNone

definition opt_str :: "string option \<Rightarrow> pyval" where
  "opt_str x = (case x of None \<Rightarrow> PNone | Some b \<Rightarrow> PStr b)"

text \<open>
  \<^verbatim>\<open>AccessManager.get_telemetry\<close>: the dictionary returned, and the session left. In
  the active branch \<^verbatim>\<open>self._active_session\<close> is an instance of a dataclass, which is
  truthy, so the entry \<^verbatim>\<open>"tier"\<close> is its name.
\<close>

definition get_telemetry ::
  "access_config \<Rightarrow> real \<Rightarrow> session \<Rightarrow> (string \<rightharpoonup> pyval) \<times> session" where
  "get_telemetry cfg now s =
     (case active_session s of
        None \<Rightarrow>
          ([''active'' \<mapsto> PBool False, ''msg'' \<mapsto> PStr ''STANDBY'',
            ''time_left'' \<mapsto> PFloat (Fin 0)], s)
      | Some c \<Rightarrow>
          (let elapsed = fsub (Fin now) (last_presence_time s);
               time_left = py_max (Fin 0) (fsub (MAINTENANCE_TIMEOUT_SEC cfg) elapsed)
           in ([''active'' \<mapsto> PBool True, ''tier'' \<mapsto> PStr (name c),
                ''badge'' \<mapsto> opt_str (active_badge s), ''time_left'' \<mapsto> PFloat time_left], s)))"

subsection \<open>Sequences of calls\<close>

text \<open>
  A call of one of the four methods, with the clock reading it sees, and what it gives
  back to the caller. A caller may catch the \<^verbatim>\<open>AttributeError\<close> and go on.
\<close>

datatype call =
    RequestOverride real "string option" "string option"
  | MaintenancePulse real bool
  | GetTelemetry real
  | SecureLogout

datatype outcome =
    OverrideResult "error + bool"
  | PulseResult "error + bool \<times> string"
  | TelemetryResult "string \<rightharpoonup> pyval"
  | LogoutResult

fun exec_call :: "access_config \<Rightarrow> call \<Rightarrow> session \<Rightarrow> outcome \<times> session" where
  "exec_call cfg (RequestOverride now b v) s =
     (case request_override cfg now b v s of (r, s') \<Rightarrow> (OverrideResult r, s'))"
| "exec_call cfg (MaintenancePulse now p) s =
     (case maintenance_pulse cfg now p s of (r, s') \<Rightarrow> (PulseResult r, s'))"
| "exec_call cfg (GetTelemetry now) s =
     (case get_telemetry cfg now s of (r, s') \<Rightarrow> (TelemetryResult r, s'))"
| "exec_call cfg SecureLogout s = (LogoutResult, secure_logout s)"

fun exec_calls :: "access_config \<Rightarrow> call list \<Rightarrow> session \<Rightarrow> outcome list \<times> session" where
  "exec_calls cfg [] s = ([], s)"
| "exec_calls cfg (c # cs) s =
     (case exec_call cfg c s of (r, s') \<Rightarrow>
        (case exec_calls cfg cs s' of (rs, s'') \<Rightarrow> (r # rs, s'')))"

text \<open>
  The invariant of the session: the clearance and the badge are set and cleared together,
  and a session without a clearance has its presence time at zero.
\<close>

definition session_inv :: "session \<Rightarrow> bool" where
  "session_inv s =
     ((active_session s = None \<longleftrightarrow> active_badge s = None) \<and>
      (active_session s = None \<longrightarrow> last_presence_time s = Fin 0))"

subsection \<open>Facts about floats\<close>

lemma ilog2_bounds: "0 < n \<Longrightarrow> 2 ^ ilog2 n \<le> n \<and> n < 2 * 2 ^ ilog2 n"
proof (induction n rule: ilog2.induct)
  case (1 n)
  show ?case
  proof (cases "n < 2")
    case True
    with "1.prems" have "n = 1" by simp
    then show ?thesis by (simp add: ilog2.simps)
  next
    case False
    then have pos: "0 < n div 2" by simp
    from "1.IH" [OF False pos]
    have "2 ^ ilog2 (n div 2) \<le> n div 2" and "n div 2 < 2 * 2 ^ ilog2 (n div 2)"
      by simp_all
    moreover have "ilog2 n = Suc (ilog2 (n div 2))"
      using False by (subst ilog2.simps) simp
    ultimately show ?thesis
      by simp linarith
  qed
qed

lemma round_half_even_nonneg: "0 \<le> r \<Longrightarrow> 0 \<le> round_half_even r"
  by (simp add: round_half_even_def Let_def)

lemma pow2_pos: "0 < pow2 k"
  by (simp add: pow2_def)

lemma round_double_nonneg:
  assumes "0 \<le> x" and "round_double x = Fin d"
  shows "0 \<le> d"
proof (cases "x = 0")
  case True
  with assms(2) show ?thesis by (simp add: round_double_def)
next
  case False
  define q where "q = pow2 (max (exponent \<bar>x\<bar>) (- 1022) - 52)"
  have q: "0 < q" by (simp add: q_def pow2_pos)
  with assms(1) have "0 \<le> x / q" by simp
  then have "0 \<le> round_half_even (x / q)" by (rule round_half_even_nonneg)
  with q have v: "0 \<le> of_int (round_half_even (x / q)) * q" by simp
  from assms(2) False have "d = of_int (round_half_even (x / q)) * q"
    by (simp add: round_double_def Let_def q_def split: if_splits)
  with v show ?thesis by simp
qed

lemma ilog2_bounds_real:
  assumes "0 < n"
  shows "(2::real) ^ ilog2 n \<le> real n" and "real n + 1 \<le> 2 * 2 ^ ilog2 n"
proof -
  from ilog2_bounds [OF assms] have a: "2 ^ ilog2 n \<le> n" and b: "n + 1 \<le> 2 * 2 ^ ilog2 n"
    by simp_all
  from a have "real (2 ^ ilog2 n) \<le> real n"
    by (simp only: of_nat_le_iff)
  then show "(2::real) ^ ilog2 n \<le> real n"
    by simp
  from b have "real (n + 1) \<le> real (2 * 2 ^ ilog2 n)"
    by (simp only: of_nat_le_iff)
  then show "real n + 1 \<le> 2 * 2 ^ ilog2 n"
    by simp
qed

lemma floor_nat_bounds:
  assumes "1 \<le> (x::real)"
  shows "0 < nat \<lfloor>x\<rfloor>" and "real (nat \<lfloor>x\<rfloor>) \<le> x" and "x < real (nat \<lfloor>x\<rfloor>) + 1"
proof -
  from assms have f: "1 \<le> \<lfloor>x\<rfloor>" by linarith
  then show "0 < nat \<lfloor>x\<rfloor>" by linarith
  from f have r: "real (nat \<lfloor>x\<rfloor>) = of_int \<lfloor>x\<rfloor>" by simp
  show "real (nat \<lfloor>x\<rfloor>) \<le> x" unfolding r by linarith
  show "x < real (nat \<lfloor>x\<rfloor>) + 1" unfolding r by linarith
qed

lemma ceiling_nat_bounds:
  assumes "1 < (y::real)"
  shows "0 < nat (\<lceil>y\<rceil> - 1)" and "real (nat (\<lceil>y\<rceil> - 1)) < y"
    and "y \<le> real (nat (\<lceil>y\<rceil> - 1)) + 1"
proof -
  from assms have c: "2 \<le> \<lceil>y\<rceil>" by linarith
  then show "0 < nat (\<lceil>y\<rceil> - 1)" by linarith
  from c have r: "real (nat (\<lceil>y\<rceil> - 1)) = of_int \<lceil>y\<rceil> - 1" by simp
  show "real (nat (\<lceil>y\<rceil> - 1)) < y" unfolding r by linarith
  show "y \<le> real (nat (\<lceil>y\<rceil> - 1)) + 1" unfolding r by linarith
qed

lemma exponent_bounds:
  assumes "0 < x"
  shows "pow2 (exponent x) \<le> x \<and> x < 2 * pow2 (exponent x)"
proof (cases "1 \<le> x")
  case True
  define n where "n = nat \<lfloor>x\<rfloor>"
  from floor_nat_bounds [OF True]
  have n: "0 < n" and lo: "real n \<le> x" and hi: "x < real n + 1"
    by (simp_all only: n_def)
  have e: "exponent x = int (ilog2 n)"
    using True by (simp only: exponent_def n_def if_True)
  have p: "pow2 (exponent x) = 2 ^ ilog2 n"
    by (simp add: e pow2_def)
  from ilog2_bounds_real [OF n] lo hi show ?thesis
    unfolding p by linarith
next
  case False
  with assms have y: "1 < 1 / x" by simp
  define m where "m = nat (\<lceil>1 / x\<rceil> - 1)"
  from ceiling_nat_bounds [OF y]
  have m: "0 < m" and lo: "real m < 1 / x" and hi: "1 / x \<le> real m + 1"
    by (simp_all only: m_def)
  have e: "exponent x = - int (ilog2 m) - 1"
    using False by (simp only: exponent_def m_def if_False)
  have "nat (1 + int (ilog2 m)) = Suc (ilog2 m)"
    by simp
  then have p: "pow2 (exponent x) = 1 / (2 * 2 ^ ilog2 m)"
    by (simp add: e pow2_def)
  from ilog2_bounds_real [OF m] lo hi
  have a: "2 ^ ilog2 m < 1 / x" and b: "1 / x \<le> 2 * 2 ^ ilog2 m"
    by linarith+
  from a assms have u: "x < 1 / 2 ^ ilog2 m"
    by (simp add: field_simps)
  from b assms have l: "1 / (2 * 2 ^ ilog2 m) \<le> x"
    by (simp add: field_simps)
  from l u show ?thesis
    unfolding p by simp
qed

lemmas float_eval =
  round_double_def exponent_def ilog2.simps pow2_def round_half_even_def Let_def

lemma round_double_zero: "round_double 0 = Fin 0"
  by (simp add: round_double_def)

lemma fsub_self: "fsub (Fin x) (Fin x) = Fin 0"
  by (simp add: round_double_zero)

lemma fsub_finite:
  assumes "fsub a b = Fin d"
  obtains x y where "a = Fin x" and "b = Fin y" and "round_double (x - y) = Fin d"
  using assms by (cases a; cases b) simp_all

lemma fsub_nonneg:
  assumes "\<not> fgt b a" and "fsub a b = Fin d"
  shows "0 \<le> d"
proof -
  from assms(2) obtain x y where a: "a = Fin x" and b: "b = Fin y"
    and r: "round_double (x - y) = Fin d"
    by (rule fsub_finite)
  from assms(1) a b have "0 \<le> x - y"
    by (simp add: fgt_def)
  then show ?thesis using r by (rule round_double_nonneg)
qed

lemma py_int_nonneg: "0 \<le> d \<Longrightarrow> py_int (Fin d) = Inr \<lfloor>d\<rfloor>"
  by simp

lemma py_max_zero_nonneg: "fle (Fin 0) (py_max (Fin 0) x)"
  by (cases x) (simp_all add: py_max_def fgt_def)

lemma str_int_examples:
  "str_int 0 = ''0''" "str_int 200 = ''200''" "str_int 299 = ''299''" "str_int 300 = ''300''"
  by code_simp+

lemma strip_lower_examples:
  "strip ''ARCH-001'' = ''ARCH-001''"
  "strip ''OP-7721 '' = ''OP-7721''"
  "strip '' MAINT-900 '' = ''MAINT-900''"
  "strip ''GHOST-007'' = ''GHOST-007''"
  "lower (strip ''admin override'') = ''admin override''"
  "lower (strip ''System Check'') = ''system check''"
  "lower (strip ''START Maintenance'') = ''start maintenance''"
  by code_simp+

subsection \<open>Facts about the methods\<close>

lemma request_override_None_badge:
  "request_override cfg now None v s = (Inl AttributeError, s)"
  by (simp add: request_override_def)

lemma request_override_None_intent:
  "request_override cfg now (Some b) None s = (Inl AttributeError, s)"
  by (simp add: request_override_def)

lemma request_override_unknown_badge:
  "auth_cache cfg (strip b) = None \<Longrightarrow>
     request_override cfg now (Some b) (Some v) s = (Inr False, s)"
  by (simp add: request_override_def)

lemma request_override_unknown_intent:
  "lower (strip v) \<notin> set valid_intents \<Longrightarrow>
     request_override cfg now (Some b) (Some v) s = (Inr False, s)"
  by (simp add: request_override_def Let_def)

lemma request_override_granted:
  "auth_cache cfg (strip b) \<noteq> None \<Longrightarrow> lower (strip v) \<in> set valid_intents \<Longrightarrow>
     request_override cfg now (Some b) (Some v) s =
       (Inr True,
        s\<lparr>active_session :=
             Some (if startswith (strip b) ''ARCH'' then TIER_3
                   else if startswith (strip b) ''MAINT'' then TIER_2
                   else TIER_1),
          active_badge := Some (strip b),
          last_presence_time := Fin now\<rparr>)"
  by (simp add: request_override_def Let_def)

lemma request_override_arch_example:
  "request_override default_config 5 (Some ''ARCH-001'') (Some ''admin override'') init_session =
     (Inr True,
      \<lparr>active_session = Some TIER_3, last_presence_time = Fin 5,
         active_badge = Some ''ARCH-001''\<rparr>)"
proof -
  have "auth_cache default_config (strip ''ARCH-001'') \<noteq> None"
    by (simp add: strip_lower_examples default_config_def default_auth_cache_def)
  moreover have "lower (strip ''admin override'') \<in> set valid_intents"
    by (simp add: strip_lower_examples valid_intents_def)
  ultimately show ?thesis
    by (simp add: request_override_granted strip_lower_examples startswith_def init_session_def)
qed

lemma maintenance_pulse_expired:
  assumes "is_override_active s"
    and "fgt (fsub (Fin now)
               (last_presence_time (if p then s\<lparr>last_presence_time := Fin now\<rparr> else s)))
             (MAINTENANCE_TIMEOUT_SEC cfg)"
  shows "maintenance_pulse cfg now p s =
           (Inr (False, ''EMERGENCY: Watchdog timeout. Reverting to Safe Mode.''),
            secure_logout (if p then s\<lparr>last_presence_time := Fin now\<rparr> else s))"
  using assms by (simp add: maintenance_pulse_def Let_def)

lemma maintenance_pulse_alive:
  assumes "is_override_active s"
    and "\<not> fgt (fsub (Fin now)
                 (last_presence_time (if p then s\<lparr>last_presence_time := Fin now\<rparr> else s)))
               (MAINTENANCE_TIMEOUT_SEC cfg)"
    and "fsub (MAINTENANCE_TIMEOUT_SEC cfg)
           (fsub (Fin now)
              (last_presence_time (if p then s\<lparr>last_presence_time := Fin now\<rparr> else s)))
         = Fin d"
    and "0 \<le> d"
  shows "maintenance_pulse cfg now p s =
           (Inr (True, ''ACTIVE: Session confirmed. Timeout in '' @ str_int \<lfloor>d\<rfloor> @ ''s''),
            if p then s\<lparr>last_presence_time := Fin now\<rparr> else s)"
  using assms by (simp add: maintenance_pulse_def Let_def)

lemma maintenance_pulse_raises:
  assumes "is_override_active s"
    and "\<not> fgt (fsub (Fin now)
                 (last_presence_time (if p then s\<lparr>last_presence_time := Fin now\<rparr> else s)))
               (MAINTENANCE_TIMEOUT_SEC cfg)"
    and "py_int (fsub (MAINTENANCE_TIMEOUT_SEC cfg)
           (fsub (Fin now)
              (last_presence_time (if p then s\<lparr>last_presence_time := Fin now\<rparr> else s))))
         = Inl e"
  shows "maintenance_pulse cfg now p s =
           (Inl e, if p then s\<lparr>last_presence_time := Fin now\<rparr> else s)"
  using assms by (simp add: maintenance_pulse_def Let_def)

lemma session_inv_init: "session_inv init_session"
  by (simp add: session_inv_def init_session_def)

lemma session_inv_secure_logout: "session_inv (secure_logout s)"
  by (simp add: session_inv_def secure_logout_def)

lemma session_inv_request_override:
  "session_inv s \<Longrightarrow> session_inv (snd (request_override cfg now b v s))"
  by (simp add: session_inv_def request_override_def Let_def split: option.splits)

lemma session_inv_maintenance_pulse:
  "session_inv s \<Longrightarrow> session_inv (snd (maintenance_pulse cfg now p s))"
  by (auto simp: session_inv_def maintenance_pulse_def Let_def is_override_active_def
      secure_logout_def split: sum.splits)

lemma get_telemetry_session: "snd (get_telemetry cfg now s) = s"
  by (simp add: get_telemetry_def Let_def split: option.splits)

lemma session_inv_exec_call:
  assumes "session_inv s"
  shows "session_inv (snd (exec_call cfg c s))"
proof (cases c)
  case (RequestOverride now b v)
  with assms session_inv_request_override [of s cfg now b v] show ?thesis
    by (simp add: split_beta)
next
  case (MaintenancePulse now p)
  with assms session_inv_maintenance_pulse [of s cfg now p] show ?thesis
    by (simp add: split_beta)
next
  case (GetTelemetry now)
  with assms show ?thesis
    by (simp add: split_beta get_telemetry_session)
next
  case SecureLogout
  then show ?thesis
    by (simp add: session_inv_secure_logout)
qed

lemma session_inv_exec_calls:
  "session_inv s \<Longrightarrow> session_inv (snd (exec_calls cfg cs s))"
proof (induction cs arbitrary: s)
  case Nil
  then show ?case by simp
next
  case (Cons c cs)
  from Cons.prems have "session_inv (snd (exec_call cfg c s))"
    by (rule session_inv_exec_call)
  then have "session_inv (snd (exec_calls cfg cs (snd (exec_call cfg c s))))"
    by (rule Cons.IH)
  then show ?case
    by (simp add: split_beta)
qed

lemma secure_logout_standby:
  "session_inv s \<Longrightarrow> active_session s = None \<Longrightarrow> secure_logout s = s"
  by (cases s) (simp add: session_inv_def secure_logout_def)

lemma request_override_cfg_cong:
  "auth_cache cfg1 = auth_cache cfg2 \<Longrightarrow>
     request_override cfg1 now b v s = request_override cfg2 now b v s"
  by (simp add: request_override_def Let_def split: option.splits)

lemma maintenance_pulse_cfg_cong:
  "MAINTENANCE_TIMEOUT_SEC cfg1 = MAINTENANCE_TIMEOUT_SEC cfg2 \<Longrightarrow>
     maintenance_pulse cfg1 now p s = maintenance_pulse cfg2 now p s"
  by (simp add: maintenance_pulse_def Let_def)

lemma get_telemetry_cfg_cong:
  "MAINTENANCE_TIMEOUT_SEC cfg1 = MAINTENANCE_TIMEOUT_SEC cfg2 \<Longrightarrow>
     get_telemetry cfg1 now s = get_telemetry cfg2 now s"
  by (simp add: get_telemetry_def Let_def split: option.splits)

lemma exec_call_cfg_cong:
  assumes "MAINTENANCE_TIMEOUT_SEC cfg1 = MAINTENANCE_TIMEOUT_SEC cfg2"
    and "auth_cache cfg1 = auth_cache cfg2"
  shows "exec_call cfg1 c s = exec_call cfg2 c s"
proof (cases c)
  case (RequestOverride now b v)
  with assms(2) show ?thesis
    by (simp add: request_override_cfg_cong [of cfg1 cfg2])
next
  case (MaintenancePulse now p)
  with assms(1) show ?thesis
    by (simp add: maintenance_pulse_cfg_cong [of cfg1 cfg2])
next
  case (GetTelemetry now)
  with assms(1) show ?thesis
    by (simp add: get_telemetry_cfg_cong [of cfg1 cfg2])
next
  case SecureLogout
  then show ?thesis by simp
qed

section \<open>Properties\<close>

text \<open>
  C1. For a badge string and an intent string (neither is \<^verbatim>\<open>None\<close>),
  \<^verbatim>\<open>request_override\<close> returns \<^verbatim>\<open>True\<close> exactly when the trimmed badge id is a key
  of the auth directory and the trimmed, lower-cased intent is one of
  "start maintenance", "admin override", "system check"; otherwise it returns
  \<^verbatim>\<open>False\<close>, and whenever it returns \<^verbatim>\<open>False\<close> the session is the one it was given:
  no field has changed. The directory lookup is equality of strings, so it is
  case-sensitive.
\<close>

theorem request_override_true_iff:
  "fst (request_override cfg now (Some b) (Some v) s) =
     Inr (strip b \<in> dom (auth_cache cfg) \<and>
          lower (strip v) \<in> {''start maintenance'', ''admin override'', ''system check''})
   \<and> (fst (request_override cfg now (Some b) (Some v) s) = Inr False \<longrightarrow>
        snd (request_override cfg now (Some b) (Some v) s) = s)"
proof (cases "auth_cache cfg (strip b) = None")
  case True
  then show ?thesis
    by (simp add: request_override_unknown_badge dom_def)
next
  case known: False
  show ?thesis
  proof (cases "lower (strip v) \<in> set valid_intents")
    case True
    with known show ?thesis
      by (simp add: request_override_granted dom_def valid_intents_def)
  next
    case False
    then show ?thesis
      by (simp add: request_override_unknown_intent valid_intents_def)
  qed
qed

theorem request_override_true_iff_witness:
  "fst (request_override default_config 7 (Some ''GHOST-007'') (Some ''admin override'')
          \<lparr>active_session = Some TIER_2, last_presence_time = Fin 3,
             active_badge = Some ''MAINT-900''\<rparr>)
     = Inr False
   \<and> snd (request_override default_config 7 (Some ''GHOST-007'') (Some ''admin override'')
          \<lparr>active_session = Some TIER_2, last_presence_time = Fin 3,
             active_badge = Some ''MAINT-900''\<rparr>)
     = \<lparr>active_session = Some TIER_2, last_presence_time = Fin 3,
          active_badge = Some ''MAINT-900''\<rparr>
   \<and> fst (request_override default_config 7 (Some '' MAINT-900 '') (Some ''START Maintenance'')
          init_session)
     = Inr True"
proof -
  have unknown: "strip ''GHOST-007'' \<notin> dom (auth_cache default_config)"
    by (simp add: strip_lower_examples default_config_def default_auth_cache_def)
  have known: "strip '' MAINT-900 '' \<in> dom (auth_cache default_config)"
    by (simp add: strip_lower_examples default_config_def default_auth_cache_def)
  from unknown known
    request_override_true_iff [of default_config 7 "''GHOST-007''" "''admin override''"
      "\<lparr>active_session = Some TIER_2, last_presence_time = Fin 3,
         active_badge = Some ''MAINT-900''\<rparr>"]
    request_override_true_iff [of default_config 7 "'' MAINT-900 ''" "''START Maintenance''"
      init_session]
  show ?thesis
    by (simp add: strip_lower_examples)
qed

text \<open>
  C4. \<^verbatim>\<open>request_override\<close> raises \<^verbatim>\<open>AttributeError\<close> exactly when the badge id or the
  intent is \<^verbatim>\<open>None\<close>, and then leaves the session as it was; for every pair of
  strings it returns a boolean.
\<close>

theorem request_override_fault_iff_None:
  "(fst (request_override cfg now badge_id voice_intent s) = Inl AttributeError
      \<longleftrightarrow> badge_id = None \<or> voice_intent = None)
   \<and> (badge_id = None \<or> voice_intent = None \<longrightarrow>
        snd (request_override cfg now badge_id voice_intent s) = s)
   \<and> (\<forall>b v. \<exists>granted. fst (request_override cfg now (Some b) (Some v) s) = Inr granted)"
  by (auto simp: request_override_def Let_def split: option.splits)

theorem request_override_fault_iff_None_witness:
  "request_override default_config 7 None (Some ''admin override'') init_session
     = (Inl AttributeError, init_session)
   \<and> request_override default_config 7 (Some ''ARCH-001'') None init_session
     = (Inl AttributeError, init_session)
   \<and> (\<exists>granted. fst (request_override default_config 7 (Some []) (Some []) init_session) = Inr granted)"
  using request_override_fault_iff_None [of default_config 7 None "Some ''admin override''" init_session]
    request_override_fault_iff_None [of default_config 7 "Some ''ARCH-001''" None init_session]
  by (simp add: prod_eq_iff)

text \<open>
  C3. When both checks pass, \<^verbatim>\<open>request_override\<close> returns \<^verbatim>\<open>True\<close> and leaves a
  session that does not depend on the one it was given: the clearance is chosen by the
  prefix of the trimmed badge id ("ARCH" gives Admin, tier 3; otherwise "MAINT" gives
  Maintenance, tier 2; otherwise Standard, tier 1), the badge is the trimmed badge id,
  and the presence time is the clock reading. Any earlier session, of a higher or a
  lower tier, is overwritten.
\<close>

theorem request_override_grant_overwrites:
  assumes "strip b \<in> dom (auth_cache cfg)"
    and "lower (strip v) \<in> {''start maintenance'', ''admin override'', ''system check''}"
  shows "request_override cfg now (Some b) (Some v) s =
           (Inr True,
            \<lparr>active_session =
                 Some (if startswith (strip b) ''ARCH'' then TIER_3
                       else if startswith (strip b) ''MAINT'' then TIER_2
                       else TIER_1),
              last_presence_time = Fin now,
              active_badge = Some (strip b)\<rparr>)
         \<and> name TIER_3 = ''Admin'' \<and> tier_id TIER_3 = 3
         \<and> name TIER_2 = ''Maintenance'' \<and> tier_id TIER_2 = 2
         \<and> name TIER_1 = ''Standard'' \<and> tier_id TIER_1 = 1"
proof -
  from assms have "auth_cache cfg (strip b) \<noteq> None" and "lower (strip v) \<in> set valid_intents"
    by (auto simp: valid_intents_def)
  then show ?thesis
    by (simp add: request_override_granted TIER_1_def TIER_2_def TIER_3_def)
qed

theorem request_override_grant_overwrites_witness:
  "request_override default_config 42 (Some ''OP-7721 '') (Some ''System Check'')
       \<lparr>active_session = Some TIER_3, last_presence_time = Fin 3,
          active_badge = Some ''ARCH-001''\<rparr>
     = (Inr True,
        \<lparr>active_session = Some TIER_1, last_presence_time = Fin 42,
           active_badge = Some ''OP-7721''\<rparr>)
   \<and> request_override default_config 43 (Some ''ARCH-001'') (Some ''admin override'')
       \<lparr>active_session = Some TIER_2, last_presence_time = Fin 3,
          active_badge = Some ''MAINT-900''\<rparr>
     = (Inr True,
        \<lparr>active_session = Some TIER_3, last_presence_time = Fin 43,
           active_badge = Some ''ARCH-001''\<rparr>)"
proof -
  have k1: "strip ''OP-7721 '' \<in> dom (auth_cache default_config)"
    and k2: "strip ''ARCH-001'' \<in> dom (auth_cache default_config)"
    by (simp_all add: strip_lower_examples default_config_def default_auth_cache_def)
  have i1: "lower (strip ''System Check'') \<in> {''start maintenance'', ''admin override'', ''system check''}"
    and i2: "lower (strip ''admin override'') \<in> {''start maintenance'', ''admin override'', ''system check''}"
    by (simp_all add: strip_lower_examples)
  from request_override_grant_overwrites [OF k1 i1] request_override_grant_overwrites [OF k2 i2]
  show ?thesis
    by (simp add: strip_lower_examples startswith_def)
qed

text \<open>
  C2. In an active session with timeout \<open>T\<close>, let \<open>elapsed\<close> be the float that the
  pulse computes: the clock reading minus the presence time, rounded to a double, taken
  after the refresh that a pulse with the operator present makes. A pulse whose
  \<open>elapsed\<close> is the finite timeout \<open>T\<close> returns \<^verbatim>\<open>True\<close>, with zero seconds
  remaining, and the session stays active; a pulse whose \<open>elapsed\<close> is greater than
  \<open>T\<close>, finite or not, returns \<^verbatim>\<open>False\<close> with the "EMERGENCY" message and leaves the
  session that \<^verbatim>\<open>secure_logout\<close> leaves: no clearance, no badge, presence time zero.
  The witness takes the presence time 0.1 and the clock reading 300.1 as doubles: their
  exact difference is above 300, the rounded one is 300.0, and the session stays active.
\<close>

theorem maintenance_pulse_timeout_boundary:
  assumes "is_override_active s"
    and "s1 = (if operator_present then s\<lparr>last_presence_time := Fin now\<rparr> else s)"
    and "elapsed = fsub (Fin now) (last_presence_time s1)"
  shows "(elapsed = MAINTENANCE_TIMEOUT_SEC cfg \<and> is_finite (MAINTENANCE_TIMEOUT_SEC cfg) \<longrightarrow>
            maintenance_pulse cfg now operator_present s =
              (Inr (True, ''ACTIVE: Session confirmed. Timeout in 0s''), s1)
          \<and> is_override_active (snd (maintenance_pulse cfg now operator_present s)))
       \<and> (fgt elapsed (MAINTENANCE_TIMEOUT_SEC cfg) \<longrightarrow>
            maintenance_pulse cfg now operator_present s =
              (Inr (False, ''EMERGENCY: Watchdog timeout. Reverting to Safe Mode.''),
               secure_logout s1)
          \<and> snd (maintenance_pulse cfg now operator_present s) =
              \<lparr>active_session = None, last_presence_time = Fin 0, active_badge = None\<rparr>
          \<and> \<not> is_override_active (snd (maintenance_pulse cfg now operator_present s)))"
proof (intro conjI impI)
  assume "elapsed = MAINTENANCE_TIMEOUT_SEC cfg \<and> is_finite (MAINTENANCE_TIMEOUT_SEC cfg)"
  then obtain t where t: "MAINTENANCE_TIMEOUT_SEC cfg = Fin t" and e: "elapsed = Fin t"
    by (cases "MAINTENANCE_TIMEOUT_SEC cfg") simp_all
  from e assms(2,3) have not_expired:
    "\<not> fgt (fsub (Fin now)
             (last_presence_time
               (if operator_present then s\<lparr>last_presence_time := Fin now\<rparr> else s)))
           (MAINTENANCE_TIMEOUT_SEC cfg)"
    by (simp add: t fgt_def)
  from e assms(2,3) have remaining:
    "fsub (MAINTENANCE_TIMEOUT_SEC cfg)
       (fsub (Fin now)
          (last_presence_time
            (if operator_present then s\<lparr>last_presence_time := Fin now\<rparr> else s)))
     = Fin 0"
    by (simp add: t round_double_zero)
  from maintenance_pulse_alive [OF assms(1) not_expired remaining]
  show r: "maintenance_pulse cfg now operator_present s =
      (Inr (True, ''ACTIVE: Session confirmed. Timeout in 0s''), s1)"
    by (simp add: assms(2) str_int_examples)
  from assms(1) show "is_override_active (snd (maintenance_pulse cfg now operator_present s))"
    by (simp add: r assms(2) is_override_active_def)
next
  assume "fgt elapsed (MAINTENANCE_TIMEOUT_SEC cfg)"
  with assms(2,3) have expired:
    "fgt (fsub (Fin now)
           (last_presence_time
             (if operator_present then s\<lparr>last_presence_time := Fin now\<rparr> else s)))
         (MAINTENANCE_TIMEOUT_SEC cfg)"
    by simp
  from maintenance_pulse_expired [OF assms(1) expired]
  show r: "maintenance_pulse cfg now operator_present s =
      (Inr (False, ''EMERGENCY: Watchdog timeout. Reverting to Safe Mode.''), secure_logout s1)"
    by (simp add: assms(2))
  show "snd (maintenance_pulse cfg now operator_present s) =
      \<lparr>active_session = None, last_presence_time = Fin 0, active_badge = None\<rparr>"
    by (simp add: r secure_logout_def)
  show "\<not> is_override_active (snd (maintenance_pulse cfg now operator_present s))"
    by (simp add: r secure_logout_def is_override_active_def)
qed

theorem maintenance_pulse_timeout_boundary_witness:
  "maintenance_pulse default_config (2639707515964621 / 2 ^ 43) False
        \<lparr>active_session = Some TIER_2, last_presence_time = Fin (3602879701896397 / 2 ^ 55),
           active_badge = Some ''MAINT-900''\<rparr>
     = (Inr (True, ''ACTIVE: Session confirmed. Timeout in 0s''),
        \<lparr>active_session = Some TIER_2, last_presence_time = Fin (3602879701896397 / 2 ^ 55),
           active_badge = Some ''MAINT-900''\<rparr>)
   \<and> maintenance_pulse default_config 306 False
        \<lparr>active_session = Some TIER_2, last_presence_time = Fin 5,
           active_badge = Some ''MAINT-900''\<rparr>
     = (Inr (False, ''EMERGENCY: Watchdog timeout. Reverting to Safe Mode.''),
        \<lparr>active_session = None, last_presence_time = Fin 0, active_badge = None\<rparr>)"
proof -
  have active: "is_override_active
      \<lparr>active_session = Some TIER_2, last_presence_time = Fin x,
         active_badge = Some ''MAINT-900''\<rparr>" for x
    by (simp add: is_override_active_def)
  from maintenance_pulse_timeout_boundary [OF active [of "3602879701896397 / 2 ^ 55"] refl refl,
      where operator_present = False and now = "2639707515964621 / 2 ^ 43"
        and cfg = default_config]
    maintenance_pulse_timeout_boundary [OF active [of 5] refl refl,
      where operator_present = False and now = 306 and cfg = default_config]
  show ?thesis
    by (simp add: default_config_def secure_logout_def float_eval fgt_def)
qed

text \<open>
  C8. In an active session whose \<open>elapsed\<close> (taken after the refresh) is not greater
  than the timeout, and whose float difference \<open>timeout - elapsed\<close> is finite, a pulse
  returns \<^verbatim>\<open>True\<close> with the message "ACTIVE: Session confirmed. Timeout in Ns", where
  N is the decimal numeral of the floor of that difference; when the operator is present
  the presence time is the clock reading before \<open>elapsed\<close> is computed, so
  \<open>elapsed\<close> is zero. The witness takes the presence time 0.1 and the clock reading
  1.1 as doubles: the rounded \<open>elapsed\<close> is 1.0 and the message says 299s.
\<close>

theorem maintenance_pulse_active_message:
  assumes "is_override_active s"
    and "s1 = (if operator_present then s\<lparr>last_presence_time := Fin now\<rparr> else s)"
    and "elapsed = fsub (Fin now) (last_presence_time s1)"
    and "\<not> fgt elapsed (MAINTENANCE_TIMEOUT_SEC cfg)"
    and "fsub (MAINTENANCE_TIMEOUT_SEC cfg) elapsed = Fin d"
  shows "maintenance_pulse cfg now operator_present s =
           (Inr (True, ''ACTIVE: Session confirmed. Timeout in '' @ str_int \<lfloor>d\<rfloor> @ ''s''), s1)
         \<and> (operator_present \<longrightarrow> last_presence_time s1 = Fin now \<and> elapsed = Fin 0)"
proof
  from assms(4,5) have "0 \<le> d"
    by (rule fsub_nonneg)
  with assms show "maintenance_pulse cfg now operator_present s =
      (Inr (True, ''ACTIVE: Session confirmed. Timeout in '' @ str_int \<lfloor>d\<rfloor> @ ''s''), s1)"
    by (simp add: maintenance_pulse_alive)
  from assms(2,3) show "operator_present \<longrightarrow> last_presence_time s1 = Fin now \<and> elapsed = Fin 0"
    by (simp add: round_double_zero)
qed

theorem maintenance_pulse_active_message_witness:
  "maintenance_pulse default_config (2476979795053773 / 2 ^ 51) False
        \<lparr>active_session = Some TIER_2, last_presence_time = Fin (3602879701896397 / 2 ^ 55),
           active_badge = Some ''MAINT-900''\<rparr>
     = (Inr (True, ''ACTIVE: Session confirmed. Timeout in 299s''),
        \<lparr>active_session = Some TIER_2, last_presence_time = Fin (3602879701896397 / 2 ^ 55),
           active_badge = Some ''MAINT-900''\<rparr>)
   \<and> maintenance_pulse default_config 1000 True
        \<lparr>active_session = Some TIER_2, last_presence_time = Fin 5,
           active_badge = Some ''MAINT-900''\<rparr>
     = (Inr (True, ''ACTIVE: Session confirmed. Timeout in 300s''),
        \<lparr>active_session = Some TIER_2, last_presence_time = Fin 1000,
           active_badge = Some ''MAINT-900''\<rparr>)"
proof -
  have active: "is_override_active
      \<lparr>active_session = Some TIER_2, last_presence_time = Fin x,
         active_badge = Some ''MAINT-900''\<rparr>" for x
    by (simp add: is_override_active_def)
  have a: "maintenance_pulse default_config (2476979795053773 / 2 ^ 51) False
        \<lparr>active_session = Some TIER_2, last_presence_time = Fin (3602879701896397 / 2 ^ 55),
           active_badge = Some ''MAINT-900''\<rparr>
     = (Inr (True, ''ACTIVE: Session confirmed. Timeout in 299s''),
        \<lparr>active_session = Some TIER_2, last_presence_time = Fin (3602879701896397 / 2 ^ 55),
           active_badge = Some ''MAINT-900''\<rparr>)"
    using maintenance_pulse_active_message [OF active [of "3602879701896397 / 2 ^ 55"] refl refl,
      where operator_present = False and now = "2476979795053773 / 2 ^ 51"
        and cfg = default_config and d = 299]
    by (simp add: default_config_def float_eval fgt_def str_int_examples)
  have b: "maintenance_pulse default_config 1000 True
        \<lparr>active_session = Some TIER_2, last_presence_time = Fin 5,
           active_badge = Some ''MAINT-900''\<rparr>
     = (Inr (True, ''ACTIVE: Session confirmed. Timeout in 300s''),
        \<lparr>active_session = Some TIER_2, last_presence_time = Fin 1000,
           active_badge = Some ''MAINT-900''\<rparr>)"
    using maintenance_pulse_active_message [OF active [of 5] refl refl,
      where operator_present = True and now = 1000 and cfg = default_config and d = 300]
    by (simp add: default_config_def float_eval fgt_def str_int_examples)
  from a b show ?thesis by (rule conjI)
qed

text \<open>
  With an infinite timeout the difference \<open>timeout - elapsed\<close> is infinite:
  \<open>elapsed\<close> is not greater than the timeout, and the pulse raises
  \<^verbatim>\<open>OverflowError\<close> from \<^verbatim>\<open>int()\<close> where C8 has it return.
\<close>

theorem maintenance_pulse_active_message_counterexample:
  "is_override_active
     \<lparr>active_session = Some TIER_2, last_presence_time = Fin 5,
        active_badge = Some ''MAINT-900''\<rparr>
   \<and> \<not> fgt (fsub (Fin 10) (Fin 5)) PInf
   \<and> fle (fsub (Fin 10) (Fin 5)) PInf
   \<and> maintenance_pulse (default_config\<lparr>MAINTENANCE_TIMEOUT_SEC := PInf\<rparr>) 10 False
        \<lparr>active_session = Some TIER_2, last_presence_time = Fin 5,
           active_badge = Some ''MAINT-900''\<rparr>
     = (Inl OverflowError,
        \<lparr>active_session = Some TIER_2, last_presence_time = Fin 5,
           active_badge = Some ''MAINT-900''\<rparr>)"
  by (simp add: float_eval fgt_def maintenance_pulse_def is_override_active_def)

text \<open>
  C10. In an active session with a timeout that is a finite double and not negative, a
  pulse with the operator present returns \<^verbatim>\<open>True\<close> whatever the clock reading and the
  earlier presence time are: the presence time becomes the clock reading, so the
  elapsed time is zero, nothing else in the session changes and the session stays
  active.
\<close>

theorem maintenance_pulse_present_never_expires:
  assumes "is_override_active s"
    and "MAINTENANCE_TIMEOUT_SEC cfg = Fin t" and "0 \<le> t" and "is_double t"
  shows "maintenance_pulse cfg now True s =
           (Inr (True, ''ACTIVE: Session confirmed. Timeout in '' @ str_int \<lfloor>t\<rfloor> @ ''s''),
            s\<lparr>last_presence_time := Fin now\<rparr>)
       \<and> fsub (Fin now) (last_presence_time (snd (maintenance_pulse cfg now True s))) = Fin 0
       \<and> is_override_active (snd (maintenance_pulse cfg now True s))"
proof -
  from assms(2,3) have not_expired:
    "\<not> fgt (fsub (Fin now)
             (last_presence_time (if True then s\<lparr>last_presence_time := Fin now\<rparr> else s)))
           (MAINTENANCE_TIMEOUT_SEC cfg)"
    by (simp add: round_double_zero fgt_def)
  from assms(2,4) have remaining:
    "fsub (MAINTENANCE_TIMEOUT_SEC cfg)
       (fsub (Fin now)
          (last_presence_time (if True then s\<lparr>last_presence_time := Fin now\<rparr> else s)))
     = Fin t"
    by (simp add: round_double_zero is_double_def)
  from maintenance_pulse_alive [OF assms(1) not_expired remaining assms(3)]
  have r: "maintenance_pulse cfg now True s =
      (Inr (True, ''ACTIVE: Session confirmed. Timeout in '' @ str_int \<lfloor>t\<rfloor> @ ''s''),
       s\<lparr>last_presence_time := Fin now\<rparr>)"
    by simp
  with assms(1) show ?thesis
    by (simp add: round_double_zero is_override_active_def)
qed

theorem maintenance_pulse_present_never_expires_witness:
  "maintenance_pulse default_config 100000 True
        \<lparr>active_session = Some TIER_3, last_presence_time = Fin 5,
           active_badge = Some ''ARCH-001''\<rparr>
     = (Inr (True, ''ACTIVE: Session confirmed. Timeout in 300s''),
        \<lparr>active_session = Some TIER_3, last_presence_time = Fin 100000,
           active_badge = Some ''ARCH-001''\<rparr>)"
proof -
  have active: "is_override_active
      \<lparr>active_session = Some TIER_3, last_presence_time = Fin 5,
         active_badge = Some ''ARCH-001''\<rparr>"
    by (simp add: is_override_active_def)
  have timeout: "MAINTENANCE_TIMEOUT_SEC default_config = Fin 300"
    by (simp add: default_config_def)
  have nonneg: "(0::real) \<le> 300"
    by simp
  have double: "is_double 300"
    by (simp add: is_double_def float_eval)
  from maintenance_pulse_present_never_expires [OF active timeout nonneg double, where now = 100000]
  show ?thesis
    by (simp add: str_int_examples)
qed

text \<open>
  With an infinite timeout, which is not negative, a pulse with the operator present
  refreshes the presence time and then raises \<^verbatim>\<open>OverflowError\<close> from \<^verbatim>\<open>int()\<close>: it
  returns nothing.
\<close>

theorem maintenance_pulse_present_never_expires_counterexample:
  "is_override_active
     \<lparr>active_session = Some TIER_3, last_presence_time = Fin 5,
        active_badge = Some ''ARCH-001''\<rparr>
   \<and> fle (Fin 0) PInf
   \<and> maintenance_pulse (default_config\<lparr>MAINTENANCE_TIMEOUT_SEC := PInf\<rparr>) 10 True
        \<lparr>active_session = Some TIER_3, last_presence_time = Fin 5,
           active_badge = Some ''ARCH-001''\<rparr>
     = (Inl OverflowError,
        \<lparr>active_session = Some TIER_3, last_presence_time = Fin 10,
           active_badge = Some ''ARCH-001''\<rparr>)"
  by (simp add: round_double_zero fgt_def maintenance_pulse_def Let_def is_override_active_def)

text \<open>
  C5. After any sequence of calls of \<^verbatim>\<open>request_override\<close>, \<^verbatim>\<open>maintenance_pulse\<close>,
  \<^verbatim>\<open>get_telemetry\<close> and \<^verbatim>\<open>secure_logout\<close> on a freshly constructed manager, the
  clearance is absent exactly when the badge is absent: both are present when an
  override is active and both are absent otherwise.
\<close>

theorem clearance_absent_iff_badge_absent:
  "(active_session (snd (exec_calls cfg calls init_session)) = None
      \<longleftrightarrow> active_badge (snd (exec_calls cfg calls init_session)) = None)
   \<and> (is_override_active (snd (exec_calls cfg calls init_session))
      \<longleftrightarrow> active_session (snd (exec_calls cfg calls init_session)) \<noteq> None
          \<and> active_badge (snd (exec_calls cfg calls init_session)) \<noteq> None)
   \<and> (\<not> is_override_active (snd (exec_calls cfg calls init_session))
      \<longleftrightarrow> active_session (snd (exec_calls cfg calls init_session)) = None
          \<and> active_badge (snd (exec_calls cfg calls init_session)) = None)"
proof -
  have "session_inv (snd (exec_calls cfg calls init_session))"
    by (rule session_inv_exec_calls [OF session_inv_init])
  then show ?thesis
    by (auto simp: session_inv_def is_override_active_def)
qed

theorem clearance_absent_iff_badge_absent_witness:
  "is_override_active (snd (exec_calls default_config
       [GetTelemetry 1, RequestOverride 5 (Some ''ARCH-001'') (Some ''admin override'')]
       init_session))
   \<and> active_session (snd (exec_calls default_config
       [GetTelemetry 1, RequestOverride 5 (Some ''ARCH-001'') (Some ''admin override'')]
       init_session)) \<noteq> None
   \<and> active_badge (snd (exec_calls default_config
       [GetTelemetry 1, RequestOverride 5 (Some ''ARCH-001'') (Some ''admin override'')]
       init_session)) \<noteq> None"
proof -
  have "snd (exec_calls default_config
       [GetTelemetry 1, RequestOverride 5 (Some ''ARCH-001'') (Some ''admin override'')]
       init_session)
     = \<lparr>active_session = Some TIER_3, last_presence_time = Fin 5,
          active_badge = Some ''ARCH-001''\<rparr>"
    by (simp add: split_beta get_telemetry_session request_override_arch_example)
  then have active: "is_override_active (snd (exec_calls default_config
       [GetTelemetry 1, RequestOverride 5 (Some ''ARCH-001'') (Some ''admin override'')]
       init_session))"
    by (simp only: is_override_active_def) simp
  from active clearance_absent_iff_badge_absent [of default_config
       "[GetTelemetry 1, RequestOverride 5 (Some ''ARCH-001'') (Some ''admin override'')]"]
  show ?thesis
    by blast
qed

text \<open>
  C6. \<^verbatim>\<open>get_telemetry\<close> leaves the session as it was. Without an active override
  the dictionary has the keys \<^verbatim>\<open>active\<close>, \<^verbatim>\<open>msg\<close> and \<^verbatim>\<open>time_left\<close>, with
  \<^verbatim>\<open>active\<close> false and \<^verbatim>\<open>time_left\<close> zero. With an active override it has exactly the
  keys \<^verbatim>\<open>active\<close>, \<^verbatim>\<open>tier\<close>, \<^verbatim>\<open>badge\<close> and \<^verbatim>\<open>time_left\<close>: \<^verbatim>\<open>active\<close> is true,
  \<^verbatim>\<open>tier\<close> is the name of the clearance, \<^verbatim>\<open>badge\<close> is the active badge and
  \<^verbatim>\<open>time_left\<close> is \<^verbatim>\<open>max(0.0, timeout - elapsed)\<close> in float arithmetic, where
  \<open>elapsed\<close> is the clock reading of this call minus the presence time. In both cases
  \<^verbatim>\<open>time_left\<close> is a float that is at least zero (it is never NaN).
\<close>

theorem get_telemetry_snapshot:
  "snd (get_telemetry cfg now s) = s
   \<and> (\<not> is_override_active s \<longrightarrow>
        dom (fst (get_telemetry cfg now s)) = {''active'', ''msg'', ''time_left''}
      \<and> fst (get_telemetry cfg now s) ''active'' = Some (PBool False)
      \<and> fst (get_telemetry cfg now s) ''time_left'' = Some (PFloat (Fin 0)))
   \<and> (\<forall>c. active_session s = Some c \<longrightarrow>
        dom (fst (get_telemetry cfg now s)) = {''active'', ''tier'', ''badge'', ''time_left''}
      \<and> fst (get_telemetry cfg now s) ''active'' = Some (PBool True)
      \<and> fst (get_telemetry cfg now s) ''tier'' = Some (PStr (name c))
      \<and> fst (get_telemetry cfg now s) ''badge'' = Some (opt_str (active_badge s))
      \<and> fst (get_telemetry cfg now s) ''time_left''
          = Some (PFloat (py_max (Fin 0)
              (fsub (MAINTENANCE_TIMEOUT_SEC cfg) (fsub (Fin now) (last_presence_time s))))))
   \<and> (\<exists>t. fst (get_telemetry cfg now s) ''time_left'' = Some (PFloat t) \<and> fle (Fin 0) t)"
proof (cases "active_session s")
  case None
  then show ?thesis
    by (auto simp: get_telemetry_def is_override_active_def)
next
  case (Some c)
  then show ?thesis
    by (auto simp: get_telemetry_def Let_def is_override_active_def py_max_zero_nonneg)
qed

theorem get_telemetry_snapshot_witness:
  "fst (get_telemetry default_config 9 init_session) ''active'' = Some (PBool False)
   \<and> fst (get_telemetry default_config 9 init_session) ''time_left'' = Some (PFloat (Fin 0))
   \<and> fst (get_telemetry default_config 105
        \<lparr>active_session = Some TIER_2, last_presence_time = Fin 5,
           active_badge = Some ''MAINT-900''\<rparr>)
        ''tier'' = Some (PStr ''Maintenance'')
   \<and> fst (get_telemetry default_config 105
        \<lparr>active_session = Some TIER_2, last_presence_time = Fin 5,
           active_badge = Some ''MAINT-900''\<rparr>)
        ''badge'' = Some (PStr ''MAINT-900'')
   \<and> fst (get_telemetry default_config 105
        \<lparr>active_session = Some TIER_2, last_presence_time = Fin 5,
           active_badge = Some ''MAINT-900''\<rparr>)
        ''time_left'' = Some (PFloat (Fin 200))
   \<and> fst (get_telemetry default_config (1 / 2 ^ 50)
        \<lparr>active_session = Some TIER_2, last_presence_time = Fin 0,
           active_badge = Some ''MAINT-900''\<rparr>)
        ''time_left'' = Some (PFloat (Fin 300))
   \<and> fst (get_telemetry default_config 1000
        \<lparr>active_session = Some TIER_2, last_presence_time = Fin 5,
           active_badge = Some ''MAINT-900''\<rparr>)
        ''time_left'' = Some (PFloat (Fin 0))"
proof -
  have standby: "\<not> is_override_active init_session"
    by (simp add: is_override_active_def init_session_def)
  have active: "active_session
        \<lparr>active_session = Some TIER_2, last_presence_time = Fin x,
           active_badge = Some ''MAINT-900''\<rparr>
      = Some TIER_2" for x
    by simp
  have tier: "name TIER_2 = ''Maintenance''"
    by (simp add: TIER_2_def)
  from standby active [of 5] active [of 0] tier
    get_telemetry_snapshot [of default_config 9 init_session]
    get_telemetry_snapshot [of default_config 105
        "\<lparr>active_session = Some TIER_2, last_presence_time = Fin 5,
           active_badge = Some ''MAINT-900''\<rparr>"]
    get_telemetry_snapshot [of default_config "1 / 2 ^ 50"
        "\<lparr>active_session = Some TIER_2, last_presence_time = Fin 0,
           active_badge = Some ''MAINT-900''\<rparr>"]
    get_telemetry_snapshot [of default_config 1000
        "\<lparr>active_session = Some TIER_2, last_presence_time = Fin 5,
           active_badge = Some ''MAINT-900''\<rparr>"]
  show ?thesis
    by (simp add: default_config_def opt_str_def py_max_def fgt_def float_eval)
qed

text \<open>
  C7. \<^verbatim>\<open>secure_logout\<close> is idempotent: two calls in a row leave the session that one
  call leaves; after any call there is no clearance, no badge and the presence time is
  zero; and in a session without an active override, reached by any sequence of calls
  of the four methods on a freshly constructed manager, it changes nothing. The method
  has no error result.
\<close>

theorem secure_logout_idempotent:
  "secure_logout (secure_logout s) = secure_logout s
   \<and> secure_logout s = \<lparr>active_session = None, last_presence_time = Fin 0, active_badge = None\<rparr>
   \<and> \<not> is_override_active (secure_logout s)
   \<and> (\<not> is_override_active (snd (exec_calls cfg calls init_session)) \<longrightarrow>
        secure_logout (snd (exec_calls cfg calls init_session))
          = snd (exec_calls cfg calls init_session))"
proof -
  have "session_inv (snd (exec_calls cfg calls init_session))"
    by (rule session_inv_exec_calls [OF session_inv_init])
  then have "\<not> is_override_active (snd (exec_calls cfg calls init_session)) \<longrightarrow>
        secure_logout (snd (exec_calls cfg calls init_session))
          = snd (exec_calls cfg calls init_session)"
    by (simp add: is_override_active_def secure_logout_standby)
  then show ?thesis
    by (simp add: secure_logout_def is_override_active_def)
qed

theorem secure_logout_idempotent_witness:
  "\<not> is_override_active (snd (exec_calls default_config
       [RequestOverride 5 (Some ''ARCH-001'') (Some ''admin override''),
        MaintenancePulse 400 False] init_session))
   \<and> secure_logout (snd (exec_calls default_config
       [RequestOverride 5 (Some ''ARCH-001'') (Some ''admin override''),
        MaintenancePulse 400 False] init_session))
     = snd (exec_calls default_config
       [RequestOverride 5 (Some ''ARCH-001'') (Some ''admin override''),
        MaintenancePulse 400 False] init_session)
   \<and> secure_logout (secure_logout
        \<lparr>active_session = Some TIER_3, last_presence_time = Fin 5,
           active_badge = Some ''ARCH-001''\<rparr>)
     = \<lparr>active_session = None, last_presence_time = Fin 0, active_badge = None\<rparr>"
proof -
  have active: "is_override_active
      \<lparr>active_session = Some TIER_3, last_presence_time = Fin 5,
         active_badge = Some ''ARCH-001''\<rparr>"
    by (simp add: is_override_active_def)
  have expired: "fgt (fsub (Fin 400)
      (last_presence_time (if False
         then \<lparr>active_session = Some TIER_3, last_presence_time = Fin 5,
                active_badge = Some ''ARCH-001''\<rparr>\<lparr>last_presence_time := Fin 400\<rparr>
         else \<lparr>active_session = Some TIER_3, last_presence_time = Fin 5,
                active_badge = Some ''ARCH-001''\<rparr>)))
      (MAINTENANCE_TIMEOUT_SEC default_config)"
    by (simp add: default_config_def fgt_def float_eval)
  have "snd (exec_calls default_config
       [RequestOverride 5 (Some ''ARCH-001'') (Some ''admin override''),
        MaintenancePulse 400 False] init_session)
     = \<lparr>active_session = None, last_presence_time = Fin 0, active_badge = None\<rparr>"
    by (simp add: split_beta request_override_arch_example
        maintenance_pulse_expired [OF active expired] secure_logout_def)
  then have standby: "\<not> is_override_active (snd (exec_calls default_config
       [RequestOverride 5 (Some ''ARCH-001'') (Some ''admin override''),
        MaintenancePulse 400 False] init_session))"
    by (simp only: is_override_active_def) simp
  note facts = secure_logout_idempotent [of
       "\<lparr>active_session = Some TIER_3, last_presence_time = Fin 5,
          active_badge = Some ''ARCH-001''\<rparr>"
       default_config
       "[RequestOverride 5 (Some ''ARCH-001'') (Some ''admin override''),
        MaintenancePulse 400 False]"]
  have once: "secure_logout
        \<lparr>active_session = Some TIER_3, last_presence_time = Fin 5,
           active_badge = Some ''ARCH-001''\<rparr>
     = \<lparr>active_session = None, last_presence_time = Fin 0, active_badge = None\<rparr>"
    by (rule facts [THEN conjunct2, THEN conjunct1])
  have twice: "secure_logout (secure_logout
        \<lparr>active_session = Some TIER_3, last_presence_time = Fin 5,
           active_badge = Some ''ARCH-001''\<rparr>)
     = \<lparr>active_session = None, last_presence_time = Fin 0, active_badge = None\<rparr>"
    by (rule trans [OF facts [THEN conjunct1] once])
  have noop: "secure_logout (snd (exec_calls default_config
       [RequestOverride 5 (Some ''ARCH-001'') (Some ''admin override''),
        MaintenancePulse 400 False] init_session))
     = snd (exec_calls default_config
       [RequestOverride 5 (Some ''ARCH-001'') (Some ''admin override''),
        MaintenancePulse 400 False] init_session)"
    by (rule facts [THEN conjunct2, THEN conjunct2, THEN conjunct2, THEN mp, OF standby])
  from standby noop twice show ?thesis
    by (intro conjI)
qed

text \<open>
  C9. Two configurations with the same timeout and the same auth directory, whatever
  their heartbeat thresholds, give the same return values, the same errors and the same
  sessions for every sequence of calls of the four methods, from every session.
\<close>

theorem heartbeat_threshold_not_observable:
  assumes "MAINTENANCE_TIMEOUT_SEC cfg1 = MAINTENANCE_TIMEOUT_SEC cfg2"
    and "auth_cache cfg1 = auth_cache cfg2"
  shows "exec_calls cfg1 calls s = exec_calls cfg2 calls s"
proof (induction calls arbitrary: s)
  case Nil
  show ?case by simp
next
  case (Cons c calls)
  have "exec_call cfg1 c s = exec_call cfg2 c s"
    using assms by (rule exec_call_cfg_cong)
  with Cons.IH show ?case
    by (simp add: split_beta)
qed

theorem heartbeat_threshold_not_observable_witness:
  "exec_calls default_config
       [RequestOverride 5 (Some ''ARCH-001'') (Some ''admin override''), GetTelemetry 6,
        MaintenancePulse 400 False, SecureLogout] init_session
   = exec_calls (default_config\<lparr>HEARTBEAT_THRESHOLD_SEC := Fin 60\<rparr>)
       [RequestOverride 5 (Some ''ARCH-001'') (Some ''admin override''), GetTelemetry 6,
        MaintenancePulse 400 False, SecureLogout] init_session
   \<and> HEARTBEAT_THRESHOLD_SEC default_config
       \<noteq> HEARTBEAT_THRESHOLD_SEC (default_config\<lparr>HEARTBEAT_THRESHOLD_SEC := Fin 60\<rparr>)"
proof -
  have t: "MAINTENANCE_TIMEOUT_SEC default_config
      = MAINTENANCE_TIMEOUT_SEC (default_config\<lparr>HEARTBEAT_THRESHOLD_SEC := Fin 60\<rparr>)"
    and a: "auth_cache default_config
      = auth_cache (default_config\<lparr>HEARTBEAT_THRESHOLD_SEC := Fin 60\<rparr>)"
    by simp_all
  have "HEARTBEAT_THRESHOLD_SEC default_config
       \<noteq> HEARTBEAT_THRESHOLD_SEC (default_config\<lparr>HEARTBEAT_THRESHOLD_SEC := Fin 60\<rparr>)"
    by (simp add: default_config_def)
  with heartbeat_threshold_not_observable [OF t a] show ?thesis
    by blast
qed

end
